theory Spec2Isabelle
  imports Main
begin

section \<open>Data model of plugin.go\<close>

text \<open>
  Go strings and byte slices are modelled as \<open>string\<close>; a Go \<open>error\<close> value is
  identified with its message, and \<open>error option\<close> is a possibly-nil error.
\<close>

type_synonym bytes = string
type_synonym error = string

text \<open>A Go call either returns or panics (nil dereference, failed type assertion).\<close>

datatype 'a result = Return 'a | Panic string

text \<open>\<open>type WebhookPost struct\<close>, with the JSON keys \<open>username\<close>, \<open>text\<close>, \<open>html\<close>.\<close>

record WebhookPost =
  Username :: string
  Text :: string
  Html :: string

text \<open>\<open>type Config struct\<close>.\<close>

record Config =
  WebhookUrl :: string
  HostServer :: string
  ClientToken :: string

text \<open>\<open>type Storage struct\<close>, with the JSON key \<open>wasEnabled\<close>.\<close>

record Storage =
  WasEnabled :: bool

text \<open>\<open>plugin.Message\<close> of the plugin API: the fields the code reads, and the priority.\<close>

record plugin_Message =
  Message :: string
  Title :: string
  Priority :: int

text \<open>The receiver \<open>WebhookerPlugin\<close>. Both pointer-like fields may be nil.\<close>

datatype StorageHandler = HostStorage

record WebhookerPlugin =
  enabled :: bool
  storageHandler :: "StorageHandler option"
  config :: "Config option"

text \<open>An outgoing HTTP request as \<open>http.NewRequest\<close> builds it, and a response.\<close>

record http_request =
  req_method :: string
  req_url :: string
  req_header :: "(string \<times> string) list"
  req_body :: bytes

record http_response =
  StatusCode :: int
  resp_body :: bytes

text \<open>Frames written to the websocket: a text message, or a close message with its code and reason.\<close>

datatype ws_frame = TextMessage bytes | CloseMessage nat string

text \<open>One line of the standard logger: the literal first argument and the value printed after it.\<close>

datatype log_arg = NoArg | ErrArg error | StrArg string | PostArg WebhookPost

datatype log_entry = Log string log_arg

subsection \<open>External collaborators\<close>

text \<open>
  The libraries the plugin calls are parameters of the model: the markdown renderer, the
  JSON string-literal encoder and the JSON decoders of \<open>encoding/json\<close>, the checks of
  \<open>http.NewRequest\<close>, the HTTP transport (which may depend on the requests sent before),
  the struct validator and the websocket dialer (which may depend on earlier dials).
  A decoder receives the bytes and the value it decodes into, and returns the error and the
  value as it left it.
\<close>

record env =
  markdown_ToHTML :: "bytes \<Rightarrow> bytes"
  json_quote :: "string \<Rightarrow> bytes"
  http_NewRequest_err :: "string \<Rightarrow> string \<Rightarrow> error option"
  http_Do :: "http_request list \<Rightarrow> http_request \<Rightarrow> error + http_response"
  json_Unmarshal_Message :: "bytes \<Rightarrow> plugin_Message \<Rightarrow> error option \<times> plugin_Message"
  json_Unmarshal_Storage :: "bytes \<Rightarrow> Storage \<Rightarrow> error option \<times> Storage"
  validator_Struct :: "Config option \<Rightarrow> error option"
  websocket_Dial :: "string list \<Rightarrow> string \<Rightarrow> error option"

text \<open>
  Everything outside the plugin value that the code reads or changes: the host's storage for
  this plugin (its blob, and the error its \<open>Load\<close> or \<open>Save\<close> fails with, if any), the
  listener goroutines started, the websocket dials made, the requests handed to the HTTP
  client, the log, the frames written to the open websocket, how often the websocket was
  closed, and whether \<open>os.Exit\<close> has ended the process.
\<close>

record world =
  storage_blob :: bytes
  storage_load_err :: "error option"
  storage_save_err :: "error option"
  goroutines :: "string list"
  dialed :: "string list"
  requests :: "http_request list"
  logs :: "log_entry list"
  ws_written :: "ws_frame list"
  ws_closed :: nat
  exited :: bool

definition log_Println :: "string \<Rightarrow> log_arg \<Rightarrow> world \<Rightarrow> world" where
  "log_Println s a w = w\<lparr>logs := logs w @ [Log s a]\<rparr>"

text \<open>\<open>log.Fatal\<close> prints and then calls \<open>os.Exit(1)\<close>: deferred calls do not run.\<close>

definition log_Fatal :: "string \<Rightarrow> log_arg \<Rightarrow> world \<Rightarrow> world" where
  "log_Fatal s a w = w\<lparr>logs := logs w @ [Log s a], exited := True\<rparr>"

section \<open>SendPostToWebhook\<close>

text \<open>
  \<open>json.Marshal\<close> of a \<open>WebhookPost\<close>: an object with the three tagged keys in field order,
  each value a JSON string literal. It cannot fail on a struct of strings.
\<close>

definition json_Marshal_WebhookPost :: "env \<Rightarrow> WebhookPost \<Rightarrow> error + bytes" where
  \<open>json_Marshal_WebhookPost env p =
     Inr (''{"username":'' @ json_quote env (Username p) @
          '',"text":'' @ json_quote env (Text p) @
          '',"html":'' @ json_quote env (Html p) @ ''}'')\<close>

text \<open>\<open>http.NewRequest\<close>: fails on a method or URL it rejects, else a request with no header.\<close>

definition http_NewRequest :: "env \<Rightarrow> string \<Rightarrow> string \<Rightarrow> bytes \<Rightarrow> error + http_request" where
  "http_NewRequest env m u b =
     (case http_NewRequest_err env m u of
        Some err \<Rightarrow> Inl err
      | None \<Rightarrow> Inr \<lparr>req_method = m, req_url = u, req_header = [], req_body = b\<rparr>)"

text \<open>\<open>Header.Set\<close>: replaces the values of the key.\<close>

definition Header_Set :: "string \<Rightarrow> string \<Rightarrow> (string \<times> string) list \<Rightarrow> (string \<times> string) list" where
  "Header_Set k v h = filter (\<lambda>kv. fst kv \<noteq> k) h @ [(k, v)]"

text \<open>
  The forwarder. The payload is logged once per call. The response of the client is only
  closed, never read.
\<close>

definition SendPostToWebhook :: "env \<Rightarrow> string \<Rightarrow> plugin_Message \<Rightarrow> world \<Rightarrow> error option \<times> world" where
  "SendPostToWebhook env webhookUrl message w =
     (let webhookPost = \<lparr>Username = Title message, Text = Message message,
                         Html = markdown_ToHTML env (Message message)\<rparr>;
          w1 = log_Println ''Sending: '' (PostArg webhookPost) w
      in case json_Marshal_WebhookPost env webhookPost of
           Inl err \<Rightarrow> (Some err, w1)
         | Inr body \<Rightarrow>
             (case http_NewRequest env ''POST'' webhookUrl body of
                Inl err \<Rightarrow> (Some err, w1)
              | Inr req \<Rightarrow>
                  (let req1 = req\<lparr>req_header :=
                                Header_Set ''Content-Type'' ''application/json'' (req_header req)\<rparr>;
                       w2 = w1\<lparr>requests := requests w1 @ [req1]\<rparr>
                   in case http_Do env (requests w1) req1 of
                        Inl err \<Rightarrow> (Some err, w2)
                      | Inr res \<Rightarrow> (None, w2))))"

text \<open>The payload the forwarder derives from an event, and the request it sends for it.\<close>

definition payload_of :: "env \<Rightarrow> plugin_Message \<Rightarrow> WebhookPost" where
  "payload_of env message =
     \<lparr>Username = Title message, Text = Message message,
      Html = markdown_ToHTML env (Message message)\<rparr>"

definition webhook_request :: "env \<Rightarrow> string \<Rightarrow> plugin_Message \<Rightarrow> http_request" where
  \<open>webhook_request env webhookUrl message =
     \<lparr>req_method = ''POST'', req_url = webhookUrl,
      req_header = [(''Content-Type'', ''application/json'')],
      req_body = ''{"username":'' @ json_quote env (Title message) @
                 '',"text":'' @ json_quote env (Message message) @
                 '',"html":'' @ json_quote env (markdown_ToHTML env (Message message)) @ ''}''\<rparr>\<close>

text \<open>The payloads of the calls of \<open>SendPostToWebhook\<close>, read off its log line.\<close>

fun sent_of :: "log_entry \<Rightarrow> WebhookPost list" where
  "sent_of (Log s (PostArg p)) = (if s = ''Sending: '' then [p] else [])"
| "sent_of (Log s a) = []"

definition forwarded :: "world \<Rightarrow> WebhookPost list" where
  "forwarded w = concat (map sent_of (logs w))"

section \<open>The storage collaborator\<close>

text \<open>
  \<open>plugin.StorageHandler\<close>: \<open>Load\<close> returns the blob or its error; \<open>Save\<close> replaces the
  blob, or fails with its error and keeps the blob.
\<close>

definition StorageHandler_Load :: "world \<Rightarrow> error + bytes" where
  "StorageHandler_Load w =
     (case storage_load_err w of Some err \<Rightarrow> Inl err | None \<Rightarrow> Inr (storage_blob w))"

definition StorageHandler_Save :: "bytes \<Rightarrow> world \<Rightarrow> error option \<times> world" where
  "StorageHandler_Save b w =
     (case storage_save_err w of
        Some err \<Rightarrow> (Some err, w)
      | None \<Rightarrow> (None, w\<lparr>storage_blob := b\<rparr>))"

text \<open>\<open>json.Marshal\<close> of a \<open>Storage\<close>: one tagged boolean; it cannot fail.\<close>

definition json_Marshal_Storage :: "Storage \<Rightarrow> error + bytes" where
  \<open>json_Marshal_Storage s =
     Inr (''{"wasEnabled":'' @ (if WasEnabled s then ''true'' else ''false'') @ ''}'')\<close>

text \<open>\<open>storageBytes, _ = json.Marshal(storage)\<close>: the error is dropped, the bytes are nil on error.\<close>

definition marshal_ignoring_error :: "error + bytes \<Rightarrow> bytes" where
  "marshal_ignoring_error r = (case r of Inl err \<Rightarrow> [] | Inr b \<Rightarrow> b)"

section \<open>TestSocket, ValidateAndSetConfig, Enable, Disable\<close>

definition TestSocket :: "env \<Rightarrow> string \<Rightarrow> world \<Rightarrow> error option \<times> world" where
  "TestSocket env u w =
     (let w1 = w\<lparr>dialed := dialed w @ [u]\<rparr>
      in case websocket_Dial env (dialed w) u of
           Some err \<Rightarrow> (Some err, log_Println ''Test dial error : '' (ErrArg err) w1)
         | None \<Rightarrow> (None, w1))"

text \<open>
  The argument of \<open>ValidateAndSetConfig\<close> is an \<open>interface{}\<close>: a \<open>*Config\<close> (possibly nil),
  or a value of another type, on which the type assertion panics.
\<close>

datatype conf_value = ConfigPtr "Config option" | OtherValue

fun ValidateAndSetConfig ::
  "env \<Rightarrow> conf_value \<Rightarrow> WebhookerPlugin \<times> world \<Rightarrow> error option result \<times> WebhookerPlugin \<times> world" where
  "ValidateAndSetConfig env conf (c, w) =
     (case conf of
        OtherValue \<Rightarrow> (Panic ''interface conversion'', (c, w))
      | ConfigPtr cfg \<Rightarrow>
          (case validator_Struct env cfg of
             Some err \<Rightarrow>
               (Return (Some (''Validation error: '' @ err)),
                (c, log_Println ''Validation error: '' (ErrArg err) w))
           | None \<Rightarrow>
               (let c1 = c\<lparr>config := cfg\<rparr>;
                    storage = \<lparr>WasEnabled = False\<rparr>
                in case storageHandler c1 of
                     None \<Rightarrow> (Panic ''nil pointer dereference'', (c1, w))
                   | Some h \<Rightarrow>
                       (case StorageHandler_Load w of
                          Inl err \<Rightarrow> (Return (Some err), (c1, w))
                        | Inr storageBytes \<Rightarrow>
                            (let storage1 = snd (json_Unmarshal_Storage env storageBytes storage)
                             in (Return None, (c1\<lparr>enabled := WasEnabled storage1\<rparr>, w)))))))"

fun Enable ::
  "env \<Rightarrow> WebhookerPlugin \<times> world \<Rightarrow> error option result \<times> WebhookerPlugin \<times> world" where
  "Enable env (c, w) =
     (case config c of
        None \<Rightarrow> (Panic ''nil pointer dereference'', (c, w))
      | Some cfg \<Rightarrow>
         (if length (HostServer cfg) < 1 then
            (Return (Some ''Please enter the correct web server''), (c, w))
          else if length (ClientToken cfg) < 1 then
            (Return (Some ''Please enter the client token''), (c, w))
          else if length (WebhookUrl cfg) < 1 then
            (Return (Some ''Please enter the correct webhook url''), (c, w))
          else
            (let serverUrl = HostServer cfg @ ''/stream?token='' @ ClientToken cfg
             in case TestSocket env serverUrl w of
                  (Some err, w1) \<Rightarrow>
                    (Return (Some ''Web server url or client_token is not valid''), (c, w1))
                | (None, w1) \<Rightarrow>
                    (let w2 = log_Println ''Websocket url : '' (StrArg serverUrl) w1;
                         w3 = w2\<lparr>goroutines := goroutines w2 @ [serverUrl]\<rparr>;
                         c1 = c\<lparr>enabled := True\<rparr>;
                         w4 = log_Println ''Webhooker plugin enabled'' NoArg w3;
                         storage = \<lparr>WasEnabled = False\<rparr>
                     in case storageHandler c1 of
                          None \<Rightarrow> (Panic ''nil pointer dereference'', (c1, w4))
                        | Some h \<Rightarrow>
                            (case StorageHandler_Load w4 of
                               Inl err \<Rightarrow> (Return (Some err), (c1, w4))
                             | Inr storageBytes \<Rightarrow>
                                 (let storage1 = storage\<lparr>WasEnabled := True\<rparr>;
                                      storageBytes1 = marshal_ignoring_error (json_Marshal_Storage storage1);
                                      w5 = snd (StorageHandler_Save storageBytes1 w4)
                                  in (Return None, (c1, w5))))))))"

fun Disable ::
  "env \<Rightarrow> WebhookerPlugin \<times> world \<Rightarrow> error option result \<times> WebhookerPlugin \<times> world" where
  "Disable env (c, w) =
     (let c1 = c\<lparr>enabled := False\<rparr>;
          w1 = log_Println ''Webhooker plugin disabled'' NoArg w;
          storage = \<lparr>WasEnabled = False\<rparr>
      in case storageHandler c1 of
           None \<Rightarrow> (Panic ''nil pointer dereference'', (c1, w1))
         | Some h \<Rightarrow>
             (case StorageHandler_Load w1 of
                Inl err \<Rightarrow> (Return (Some err), (c1, w1))
              | Inr storageBytes \<Rightarrow>
                  (let storage1 = storage\<lparr>WasEnabled := False\<rparr>;
                       storageBytes1 = marshal_ignoring_error (json_Marshal_Storage storage1);
                       w2 = snd (StorageHandler_Save storageBytes1 w1)
                   in (Return None, (c1, w2)))))"

section \<open>StartListener\<close>

subsection \<open>The reader goroutine\<close>

text \<open>
  One pass of the \<open>for\<close> loop of the goroutine, given what \<open>ws.ReadMessage\<close> returned. The
  message is decoded into \<open>incomingMsg\<close>, which is shared by all passes. A read error and a
  decoding error end in \<open>log.Fatal\<close>; an error of the forwarder is printed and the loop goes on.
  The URL is \<open>c.config.WebhookUrl\<close>.
\<close>

fun reader_pass ::
  "env \<Rightarrow> string \<Rightarrow> error + bytes \<Rightarrow> plugin_Message \<times> world \<Rightarrow> plugin_Message \<times> world" where
  "reader_pass env webhookUrl r (incomingMsg, w) =
     (case r of
        Inl err \<Rightarrow> (incomingMsg, log_Fatal ''Websocket read message error: '' (ErrArg err) w)
      | Inr message \<Rightarrow>
          (case json_Unmarshal_Message env message incomingMsg of
             (Some err, incomingMsg1) \<Rightarrow>
               (incomingMsg1, log_Fatal ''Json parsing error: '' (ErrArg err) w)
           | (None, incomingMsg1) \<Rightarrow>
               (case SendPostToWebhook env webhookUrl incomingMsg1 w of
                  (Some err, w1) \<Rightarrow> (incomingMsg1, log_Println ''POST error: '' (ErrArg err) w1)
                | (None, w1) \<Rightarrow> (incomingMsg1, w1))))"

text \<open>
  The loop over the results of successive reads. It stops once the process has exited; when the
  results run out the goroutine is blocked in \<open>ReadMessage\<close>.
\<close>

fun reader_loop ::
  "env \<Rightarrow> string \<Rightarrow> (error + bytes) list \<Rightarrow> plugin_Message \<times> world \<Rightarrow> plugin_Message \<times> world" where
  "reader_loop env webhookUrl [] mw = mw"
| "reader_loop env webhookUrl (r # rs) mw =
     (if exited (snd mw) then mw
      else reader_loop env webhookUrl rs (reader_pass env webhookUrl r mw))"

text \<open>
  Decoding a run of frames into the shared message, up to the first frame that fails: the
  messages forwarded, and the error if a frame failed.
\<close>

fun unmarshal_all :: "env \<Rightarrow> plugin_Message \<Rightarrow> bytes list \<Rightarrow> plugin_Message list \<times> error option" where
  "unmarshal_all env m [] = ([], None)"
| "unmarshal_all env m (b # bs) =
     (case json_Unmarshal_Message env b m of
        (Some err, m1) \<Rightarrow> ([], Some err)
      | (None, m1) \<Rightarrow> (case unmarshal_all env m1 bs of (ms, r) \<Rightarrow> (m1 # ms, r)))"

subsection \<open>The engine: reader goroutine and select loop\<close>

text \<open>
  What can happen while the listener is connected: a read of the reader goroutine returns;
  the ticker fires (with the time as text, and the error of the keepalive write, if any); an
  interrupt arrives (with the error of writing the close frame, if any); the one-second
  timer of the final wait fires; the channel \<open>done\<close> is found closed.
\<close>

datatype event =
    Read "error + bytes"
  | Tick string "error option"
  | Interrupt "error option"
  | GraceTimeout
  | DoneObserved

text \<open>
  Where \<open>StartListener\<close> is: in its select loop, in the final wait after an interrupt, or
  returned with its result.
\<close>

datatype phase = Selecting | Grace | Returned "error option"

record engine =
  phase :: phase
  incomingMsg :: plugin_Message
  done_closed :: bool

text \<open>Returning from \<open>StartListener\<close> once connected runs the deferred \<open>ws.Close()\<close>.\<close>

fun StartListener_return :: "error option \<Rightarrow> engine \<times> world \<Rightarrow> engine \<times> world" where
  "StartListener_return err (e, w) = (e\<lparr>phase := Returned err\<rparr>, w\<lparr>ws_closed := ws_closed w + 1\<rparr>)"

text \<open>
  One event. Nothing happens after \<open>os.Exit\<close>. The reader goroutine runs whatever the phase of
  the select loop is; its only \<open>return\<close> follows \<open>log.Fatal\<close>, so it never closes \<open>done\<close>.
\<close>

fun engine_step :: "env \<Rightarrow> string \<Rightarrow> event \<Rightarrow> engine \<times> world \<Rightarrow> engine \<times> world" where
  "engine_step env webhookUrl ev (e, w) =
     (if exited w then (e, w)
      else (case ev of
        Read r \<Rightarrow>
          (case reader_pass env webhookUrl r (incomingMsg e, w) of
             (m, w1) \<Rightarrow> (e\<lparr>incomingMsg := m\<rparr>, w1))
      | Tick t r \<Rightarrow>
          (if phase e = Selecting then
             (case r of
                None \<Rightarrow> (e, w\<lparr>ws_written := ws_written w @ [TextMessage t]\<rparr>)
              | Some err \<Rightarrow>
                  StartListener_return (Some err)
                    (e, log_Println ''Websocket write error: '' (ErrArg err) w))
           else (e, w))
      | Interrupt r \<Rightarrow>
          (if phase e = Selecting then
             (let w1 = log_Println ''Interrupt received'' NoArg w
              in case r of
                   Some err \<Rightarrow>
                     StartListener_return (Some err)
                       (e, log_Println ''Websocket close error: '' (ErrArg err) w1)
                 | None \<Rightarrow>
                     (e\<lparr>phase := Grace\<rparr>,
                      w1\<lparr>ws_written := ws_written w1 @ [CloseMessage 1000 []]\<rparr>))
           else (e, w))
      | GraceTimeout \<Rightarrow>
          (if phase e = Grace then StartListener_return None (e, w) else (e, w))
      | DoneObserved \<Rightarrow>
          (if done_closed e \<and> (phase e = Selecting \<or> phase e = Grace)
           then StartListener_return None (e, w) else (e, w))))"

fun run_engine :: "env \<Rightarrow> string \<Rightarrow> event list \<Rightarrow> engine \<times> world \<Rightarrow> engine \<times> world" where
  "run_engine env webhookUrl [] ew = ew"
| "run_engine env webhookUrl (ev # evs) ew =
     run_engine env webhookUrl evs (engine_step env webhookUrl ev ew)"

text \<open>
  \<open>StartListener\<close> under a schedule of events: it dials; a failed dial ends in \<open>log.Fatal\<close>;
  otherwise the connection is open, \<open>incomingMsg\<close> is the zero message, and the events run.
\<close>

definition StartListener ::
  "env \<Rightarrow> string \<Rightarrow> string \<Rightarrow> event list \<Rightarrow> world \<Rightarrow> engine option \<times> world" where
  "StartListener env webhookUrl serverUrl evs w =
     (let w1 = w\<lparr>dialed := dialed w @ [serverUrl]\<rparr>
      in case websocket_Dial env (dialed w) serverUrl of
           Some err \<Rightarrow> (None, log_Fatal ''Websocket error: '' (ErrArg err) w1)
         | None \<Rightarrow>
             (case run_engine env webhookUrl evs
                     (\<lparr>phase = Selecting,
                       incomingMsg = \<lparr>Message = [], Title = [], Priority = 0\<rparr>,
                       done_closed = False\<rparr>,
                      log_Println ''Connected to '' (StrArg serverUrl) w1) of
                (e, w2) \<Rightarrow> (Some e, w2)))"

text \<open>
  The bookkeeping of the connection handle: it has been closed once if \<open>StartListener\<close> has
  returned, and not at all otherwise.
\<close>

definition closed_iff_returned :: "engine \<times> world \<Rightarrow> bool" where
  "closed_iff_returned ew =
     (ws_closed (snd ew) = (case phase (fst ew) of Returned r \<Rightarrow> 1 | Selecting \<Rightarrow> 0 | Grace \<Rightarrow> 0))"

section \<open>A concrete environment\<close>

text \<open>
  Stand-ins for the libraries, on which the theorems below are instantiated. Strings are
  quoted without escapes; the decoders know a few blobs and reject everything else without
  touching their target, as \<open>json.Unmarshal\<close> does on a syntax error (the empty blob
  included). On an object whose key \<open>wasEnabled\<close> comes twice, first with \<open>true\<close> and then
  with a number, the decoder of \<open>Storage\<close> stores the first value and reports the type error
  of the second, as \<open>json.Unmarshal\<close> does. \<open>http.NewRequest\<close> rejects the URL \<open>:\<close>, which
  has no scheme; the transport answers with status 500, or fails for the host \<open>down\<close>.
\<close>

definition sample_Unmarshal_Message :: "bytes \<Rightarrow> plugin_Message \<Rightarrow> error option \<times> plugin_Message" where
  \<open>sample_Unmarshal_Message b m =
     (if b = ''{"title":"T","message":"M"}'' then (None, m\<lparr>Message := ''M'', Title := ''T''\<rparr>)
      else if b = ''{"message":"N"}'' then (None, m\<lparr>Message := ''N''\<rparr>)
      else (Some ''invalid character'', m))\<close>

definition sample_Unmarshal_Storage :: "bytes \<Rightarrow> Storage \<Rightarrow> error option \<times> Storage" where
  \<open>sample_Unmarshal_Storage b s =
     (if b = ''{"wasEnabled":true}'' then (None, s\<lparr>WasEnabled := True\<rparr>)
      else if b = ''{"wasEnabled":false}'' then (None, s\<lparr>WasEnabled := False\<rparr>)
      else if b = ''{"wasEnabled":true,"wasEnabled":1}'' then
        (Some ''json: cannot unmarshal number into Go struct field Storage.wasEnabled of type bool'',
         s\<lparr>WasEnabled := True\<rparr>)
      else if b = [] then (Some ''unexpected end of JSON input'', s)
      else (Some ''invalid character'', s))\<close>

definition sample_env :: env where
  "sample_env =
     \<lparr>markdown_ToHTML = (\<lambda>b. ''<p>'' @ b @ ''</p>''),
      json_quote = (\<lambda>s. [CHR 0x22] @ s @ [CHR 0x22]),
      http_NewRequest_err = (\<lambda>m u. if u = '':'' then Some ''missing protocol scheme'' else None),
      http_Do = (\<lambda>sent req. if req_url req = ''http://down/hook'' then Inl ''connection refused''
                             else Inr \<lparr>StatusCode = 500, resp_body = ''Internal Server Error''\<rparr>),
      json_Unmarshal_Message = sample_Unmarshal_Message,
      json_Unmarshal_Storage = sample_Unmarshal_Storage,
      validator_Struct = (\<lambda>cfg. case cfg of None \<Rightarrow> Some ''validator: (nil *main.Config)'' | Some c \<Rightarrow> None),
      websocket_Dial = (\<lambda>before u. if u = ''ws://down/stream?token=abc'' then Some ''dial tcp: no such host''
                                    else None)\<rparr>"

definition sample_world :: world where
  "sample_world =
     \<lparr>storage_blob = [], storage_load_err = None, storage_save_err = None, goroutines = [],
      dialed = [], requests = [], logs = [], ws_written = [], ws_closed = 0, exited = False\<rparr>"

definition sample_Config :: Config where
  "sample_Config =
     \<lparr>WebhookUrl = ''http://example.com/hook'', HostServer = ''ws://localhost:8080'',
      ClientToken = ''abc''\<rparr>"

definition sample_plugin :: WebhookerPlugin where
  "sample_plugin = \<lparr>enabled = False, storageHandler = Some HostStorage, config = Some sample_Config\<rparr>"

definition sample_Message :: plugin_Message where
  "sample_Message = \<lparr>Message = ''M'', Title = ''T'', Priority = 0\<rparr>"

section \<open>Properties of SendPostToWebhook\<close>

declare ValidateAndSetConfig.simps [simp del]
declare Enable.simps [simp del]
declare Disable.simps [simp del]
declare reader_pass.simps [simp del]
declare engine_step.simps [simp del]

lemma SendPostToWebhook_forwarded:
  "forwarded (snd (SendPostToWebhook env u m w)) = forwarded w @ [payload_of env m]"
  by (simp add: SendPostToWebhook_def Let_def forwarded_def payload_of_def log_Println_def
      json_Marshal_WebhookPost_def http_NewRequest_def split: option.splits sum.splits)

lemma SendPostToWebhook_exited:
  "exited (snd (SendPostToWebhook env u m w)) = exited w"
  by (simp add: SendPostToWebhook_def Let_def log_Println_def
      json_Marshal_WebhookPost_def http_NewRequest_def split: option.splits sum.splits)

lemma SendPostToWebhook_ws_closed:
  "ws_closed (snd (SendPostToWebhook env u m w)) = ws_closed w"
  by (simp add: SendPostToWebhook_def Let_def log_Println_def
      json_Marshal_WebhookPost_def http_NewRequest_def split: option.splits sum.splits)

lemma SendPostToWebhook_requests_le:
  "length (requests (snd (SendPostToWebhook env u m w))) \<le> Suc (length (requests w))"
  by (simp add: SendPostToWebhook_def Let_def log_Println_def
      json_Marshal_WebhookPost_def http_NewRequest_def split: option.splits sum.splits)

lemma SendPostToWebhook_requests:
  assumes \<open>http_NewRequest_err env ''POST'' u = None\<close>
  shows "requests (snd (SendPostToWebhook env u m w)) = requests w @ [webhook_request env u m]"
  using assms
  by (simp add: SendPostToWebhook_def Let_def log_Println_def json_Marshal_WebhookPost_def
      http_NewRequest_def Header_Set_def webhook_request_def split: sum.splits)

lemma SendPostToWebhook_requests_rejected:
  assumes \<open>http_NewRequest_err env ''POST'' u = Some err\<close>
  shows "requests (snd (SendPostToWebhook env u m w)) = requests w"
    and "fst (SendPostToWebhook env u m w) = Some err"
  using assms
  by (simp_all add: SendPostToWebhook_def Let_def log_Println_def json_Marshal_WebhookPost_def
      http_NewRequest_def split: sum.splits)

text \<open>
  C4, as stated, fails: \<open>Enable\<close> accepts any non-empty webhook URL, also one that
  \<open>http.NewRequest\<close> rejects, and for such a URL the forwarder issues no request at all.
\<close>

theorem SendPostToWebhook_posts_payload_counterexample:
  \<open>fst (Enable sample_env
          (sample_plugin\<lparr>config := Some (sample_Config\<lparr>WebhookUrl := '':''\<rparr>)\<rparr>, sample_world)) =
     Return None \<and>
   requests (snd (SendPostToWebhook sample_env '':''
                    \<lparr>Message = ''M'', Title = ''T'', Priority = 0\<rparr> sample_world)) = [] \<and>
   fst (SendPostToWebhook sample_env '':''
          \<lparr>Message = ''M'', Title = ''T'', Priority = 0\<rparr> sample_world) =
     Some ''missing protocol scheme''\<close>
  by (simp add: Enable.simps TestSocket_def Let_def StorageHandler_Load_def StorageHandler_Save_def
      log_Println_def sample_plugin_def sample_Config_def sample_env_def sample_world_def
      SendPostToWebhook_def json_Marshal_WebhookPost_def http_NewRequest_def)

text \<open>
  C4, amended. For an event with title \<open>T\<close> and body \<open>M\<close>: when \<open>http.NewRequest\<close> accepts
  the configured webhook URL, the forwarder hands exactly one request to the HTTP client, a
  POST to that URL whose only header is \<open>Content-Type: application/json\<close> and whose body is
  the JSON object with \<open>username\<close> = \<open>T\<close>, \<open>text\<close> = \<open>M\<close> and \<open>html\<close> = the rendering of
  \<open>M\<close>; when \<open>http.NewRequest\<close> rejects the URL, it hands over no request and returns that
  error.
\<close>

theorem SendPostToWebhook_posts_payload:
  \<open>(http_NewRequest_err env ''POST'' webhookUrl = None \<longrightarrow>
      requests (snd (SendPostToWebhook env webhookUrl \<lparr>Message = M, Title = T, Priority = p\<rparr> w)) =
        requests w @
        [\<lparr>req_method = ''POST'', req_url = webhookUrl,
          req_header = [(''Content-Type'', ''application/json'')],
          req_body = ''{"username":'' @ json_quote env T @
                     '',"text":'' @ json_quote env M @
                     '',"html":'' @ json_quote env (markdown_ToHTML env M) @ ''}''\<rparr>]) \<and>
    (http_NewRequest_err env ''POST'' webhookUrl = Some err \<longrightarrow>
      requests (snd (SendPostToWebhook env webhookUrl \<lparr>Message = M, Title = T, Priority = p\<rparr> w)) =
        requests w \<and>
      fst (SendPostToWebhook env webhookUrl \<lparr>Message = M, Title = T, Priority = p\<rparr> w) = Some err)\<close>
  by (simp add: SendPostToWebhook_def Let_def log_Println_def json_Marshal_WebhookPost_def
      http_NewRequest_def Header_Set_def split: sum.splits)

theorem SendPostToWebhook_posts_payload_witness:
  \<open>http_NewRequest_err sample_env ''POST'' ''http://example.com/hook'' = None \<and>
   requests (snd (SendPostToWebhook sample_env ''http://example.com/hook''
                    \<lparr>Message = ''M'', Title = ''T'', Priority = 0\<rparr> sample_world)) =
     [\<lparr>req_method = ''POST'', req_url = ''http://example.com/hook'',
       req_header = [(''Content-Type'', ''application/json'')],
       req_body = ''{"username":"T","text":"M","html":"<p>M</p>"}''\<rparr>] \<and>
   http_NewRequest_err sample_env ''POST'' '':'' = Some ''missing protocol scheme'' \<and>
   requests (snd (SendPostToWebhook sample_env '':''
                    \<lparr>Message = ''M'', Title = ''T'', Priority = 0\<rparr> sample_world)) = []\<close>
proof -
  have h: \<open>http_NewRequest_err sample_env ''POST'' ''http://example.com/hook'' = None \<and>
           http_NewRequest_err sample_env ''POST'' '':'' = Some ''missing protocol scheme''\<close>
    by (simp add: sample_env_def)
  have e: \<open>json_quote sample_env ''T'' = ''"T"'' \<and> json_quote sample_env ''M'' = ''"M"'' \<and>
           json_quote sample_env (markdown_ToHTML sample_env ''M'') = ''"<p>M</p>"'' \<and>
           requests sample_world = []\<close>
    by (simp add: sample_env_def sample_world_def)
  from h e
    SendPostToWebhook_posts_payload [of sample_env "''http://example.com/hook''" "''M''" "''T''" 0
      sample_world "''x''"]
    SendPostToWebhook_posts_payload [of sample_env "'':''" "''M''" "''T''" 0
      sample_world "''missing protocol scheme''"]
  show ?thesis by simp
qed

text \<open>
  C9. The response is not inspected: whatever response the transport returns (any status
  code, any body), the forwarder returns no error; and when it returns an error, that error
  is the one of \<open>http.NewRequest\<close> or the one of the transport.
\<close>

theorem SendPostToWebhook_ignores_response:
  \<open>(http_NewRequest_err env ''POST'' u = None \<and>
     http_Do env (requests w) (webhook_request env u m) = Inr res
     \<longrightarrow> fst (SendPostToWebhook env u m w) = None) \<and>
    (fst (SendPostToWebhook env u m w) = Some err
     \<longrightarrow> http_NewRequest_err env ''POST'' u = Some err \<or>
         (http_NewRequest_err env ''POST'' u = None \<and>
          http_Do env (requests w) (webhook_request env u m) = Inl err))\<close>
  by (auto simp add: SendPostToWebhook_def Let_def log_Println_def json_Marshal_WebhookPost_def
      http_NewRequest_def Header_Set_def webhook_request_def split: sum.splits option.splits)

theorem SendPostToWebhook_ignores_response_witness:
  \<open>http_NewRequest_err sample_env ''POST'' ''http://example.com/hook'' = None \<and>
   http_Do sample_env (requests sample_world)
      (webhook_request sample_env ''http://example.com/hook'' sample_Message) =
      Inr \<lparr>StatusCode = 500, resp_body = ''Internal Server Error''\<rparr> \<and>
   fst (SendPostToWebhook sample_env ''http://example.com/hook'' sample_Message sample_world) = None \<and>
   fst (SendPostToWebhook sample_env ''http://down/hook'' sample_Message sample_world) =
      Some ''connection refused'' \<and>
   http_Do sample_env (requests sample_world)
      (webhook_request sample_env ''http://down/hook'' sample_Message) = Inl ''connection refused''\<close>
proof -
  have a: \<open>http_NewRequest_err sample_env ''POST'' ''http://example.com/hook'' = None \<and>
     http_Do sample_env (requests sample_world)
       (webhook_request sample_env ''http://example.com/hook'' sample_Message) =
       Inr \<lparr>StatusCode = 500, resp_body = ''Internal Server Error''\<rparr>\<close>
    by (simp add: sample_env_def webhook_request_def)
  have b: \<open>fst (SendPostToWebhook sample_env ''http://down/hook'' sample_Message sample_world) =
      Some ''connection refused''\<close>
    by (simp add: sample_env_def sample_world_def sample_Message_def SendPostToWebhook_def Let_def
        log_Println_def json_Marshal_WebhookPost_def http_NewRequest_def Header_Set_def)
  have c: \<open>http_NewRequest_err sample_env ''POST'' ''http://down/hook'' \<noteq> Some ''connection refused''\<close>
    by (simp add: sample_env_def)
  from a b c
    SendPostToWebhook_ignores_response [of sample_env "''http://example.com/hook''" sample_world
      sample_Message "\<lparr>StatusCode = 500, resp_body = ''Internal Server Error''\<rparr>" "''x''"]
    SendPostToWebhook_ignores_response [of sample_env "''http://down/hook''" sample_world
      sample_Message "\<lparr>StatusCode = 500, resp_body = ''Internal Server Error''\<rparr>" "''connection refused''"]
  show ?thesis by blast
qed

section \<open>Properties of Enable, Disable and ValidateAndSetConfig\<close>

lemma json_Marshal_Storage_bytes:
  \<open>marshal_ignoring_error (json_Marshal_Storage \<lparr>WasEnabled = b\<rparr>) =
     ''{"wasEnabled":'' @ (if b then ''true'' else ''false'') @ ''}''\<close>
  by (simp add: marshal_ignoring_error_def json_Marshal_Storage_def)

lemma Enable_Load_error:
  assumes "config c = Some cfg" and "HostServer cfg \<noteq> []" and "ClientToken cfg \<noteq> []"
    and "WebhookUrl cfg \<noteq> []"
    and "websocket_Dial env (dialed w) (HostServer cfg @ ''/stream?token='' @ ClientToken cfg) = None"
    and "storageHandler c = Some h" and "storage_load_err w = Some err"
  shows "fst (Enable env (c, w)) = Return (Some err)"
  using assms
  by (simp add: Enable.simps TestSocket_def Let_def StorageHandler_Load_def log_Println_def)

lemma Disable_Load_error:
  assumes "storageHandler c = Some h" and "storage_load_err w = Some err"
  shows "fst (Disable env (c, w)) = Return (Some err)"
  using assms
  by (simp add: Disable.simps Let_def StorageHandler_Load_def log_Println_def)

text \<open>Whatever \<open>Save\<close> answers, \<open>Enable\<close> and \<open>Disable\<close> return no error once \<open>Load\<close> succeeded.\<close>

lemma Enable_ignores_Save_result:
  assumes "config c = Some cfg" and "HostServer cfg \<noteq> []" and "ClientToken cfg \<noteq> []"
    and "WebhookUrl cfg \<noteq> []"
    and "websocket_Dial env (dialed w) (HostServer cfg @ ''/stream?token='' @ ClientToken cfg) = None"
    and "storageHandler c = Some h" and "storage_load_err w = None"
  shows "fst (Enable env (c, w)) = Return None"
  using assms
  by (simp add: Enable.simps TestSocket_def Let_def StorageHandler_Load_def log_Println_def)

lemma Disable_ignores_Save_result:
  assumes "storageHandler c = Some h" and "storage_load_err w = None"
  shows "fst (Disable env (c, w)) = Return None"
  using assms
  by (simp add: Disable.simps Let_def StorageHandler_Load_def log_Println_def)

text \<open>
  What \<open>ValidateAndSetConfig\<close> does after a successful \<open>Load\<close>: the error of the decoder is
  dropped, and \<open>enabled\<close> becomes the \<open>WasEnabled\<close> field of the record as the decoder left it.
\<close>

lemma ValidateAndSetConfig_copies_decoded_flag:
  assumes "validator_Struct env cfg = None"
    and "storageHandler c = Some h" and "storage_load_err w = None"
  shows "ValidateAndSetConfig env (ConfigPtr cfg) (c, w) =
           (Return None,
            (c\<lparr>config := cfg,
               enabled := WasEnabled (snd (json_Unmarshal_Storage env (storage_blob w)
                                             \<lparr>WasEnabled = False\<rparr>))\<rparr>, w))"
  using assms
  by (simp add: ValidateAndSetConfig.simps Let_def StorageHandler_Load_def)

text \<open>
  C5. When the stream host, the auth token or the webhook URL of the configuration is empty,
  \<open>Enable\<close> returns the error for the first empty field in the order host, token, URL, and
  changes nothing: the plugin value (its \<open>enabled\<close> flag included) and the world (no listener
  goroutine started, storage untouched) are as before.
\<close>

theorem Enable_incomplete_config:
  assumes "config c = Some cfg"
    and "HostServer cfg = [] \<or> ClientToken cfg = [] \<or> WebhookUrl cfg = []"
  shows "Enable env (c, w) =
           (Return (Some (if HostServer cfg = [] then ''Please enter the correct web server''
                          else if ClientToken cfg = [] then ''Please enter the client token''
                          else ''Please enter the correct webhook url'')),
            (c, w))"
  using assms by (auto simp add: Enable.simps)

theorem Enable_incomplete_config_witness:
  "config (sample_plugin\<lparr>config := Some (sample_Config\<lparr>ClientToken := []\<rparr>)\<rparr>) =
     Some (sample_Config\<lparr>ClientToken := []\<rparr>) \<and>
   ClientToken (sample_Config\<lparr>ClientToken := []\<rparr>) = [] \<and>
   Enable sample_env (sample_plugin\<lparr>config := Some (sample_Config\<lparr>ClientToken := []\<rparr>)\<rparr>, sample_world) =
     (Return (Some ''Please enter the client token''),
      (sample_plugin\<lparr>config := Some (sample_Config\<lparr>ClientToken := []\<rparr>)\<rparr>, sample_world))"
  using Enable_incomplete_config
    [of "sample_plugin\<lparr>config := Some (sample_Config\<lparr>ClientToken := []\<rparr>)\<rparr>"
        "sample_Config\<lparr>ClientToken := []\<rparr>" sample_env sample_world]
  by (simp add: sample_Config_def)

text \<open>
  C6. With the three fields non-empty, the probe succeeding and the storage succeeding,
  \<open>Enable\<close> followed by \<open>Disable\<close> both return no error and leave the stored blob equal to
  the JSON object with \<open>wasEnabled\<close> false, and the \<open>enabled\<close> flag false.
\<close>

theorem Enable_then_Disable:
  assumes "config c = Some cfg" and "HostServer cfg \<noteq> []" and "ClientToken cfg \<noteq> []"
    and "WebhookUrl cfg \<noteq> []"
    and "websocket_Dial env (dialed w) (HostServer cfg @ ''/stream?token='' @ ClientToken cfg) = None"
    and "storageHandler c = Some h" and "storage_load_err w = None" and "storage_save_err w = None"
  shows \<open>fst (Enable env (c, w)) = Return None \<and>
         fst (Disable env (snd (Enable env (c, w)))) = Return None \<and>
         storage_blob (snd (snd (Disable env (snd (Enable env (c, w)))))) = ''{"wasEnabled":false}'' \<and>
         enabled (fst (snd (Disable env (snd (Enable env (c, w)))))) = False\<close>
  using assms
  by (simp add: Enable.simps Disable.simps TestSocket_def Let_def StorageHandler_Load_def
      StorageHandler_Save_def log_Println_def json_Marshal_Storage_bytes)

theorem Enable_then_Disable_witness:
  \<open>config sample_plugin = Some sample_Config \<and> HostServer sample_Config \<noteq> [] \<and>
   ClientToken sample_Config \<noteq> [] \<and> WebhookUrl sample_Config \<noteq> [] \<and>
   websocket_Dial sample_env (dialed sample_world)
     (HostServer sample_Config @ ''/stream?token='' @ ClientToken sample_Config) = None \<and>
   storageHandler sample_plugin = Some HostStorage \<and>
   storage_load_err sample_world = None \<and> storage_save_err sample_world = None \<and>
   fst (Enable sample_env (sample_plugin, sample_world)) = Return None \<and>
   storage_blob (snd (snd (Enable sample_env (sample_plugin, sample_world)))) = ''{"wasEnabled":true}'' \<and>
   storage_blob (snd (snd (Disable sample_env (snd (Enable sample_env (sample_plugin, sample_world)))))) =
     ''{"wasEnabled":false}'' \<and>
   enabled (fst (snd (Disable sample_env (snd (Enable sample_env (sample_plugin, sample_world)))))) = False\<close>
proof -
  have h: \<open>config sample_plugin = Some sample_Config \<and> HostServer sample_Config \<noteq> [] \<and>
     ClientToken sample_Config \<noteq> [] \<and> WebhookUrl sample_Config \<noteq> [] \<and>
     websocket_Dial sample_env (dialed sample_world)
       (HostServer sample_Config @ ''/stream?token='' @ ClientToken sample_Config) = None \<and>
     storageHandler sample_plugin = Some HostStorage \<and>
     storage_load_err sample_world = None \<and> storage_save_err sample_world = None\<close>
    by (simp add: sample_plugin_def sample_Config_def sample_env_def sample_world_def)
  have e: \<open>storage_blob (snd (snd (Enable sample_env (sample_plugin, sample_world)))) =
     ''{"wasEnabled":true}''\<close>
    using h
    by (simp add: Enable.simps TestSocket_def Let_def StorageHandler_Load_def
        StorageHandler_Save_def log_Println_def json_Marshal_Storage_bytes)
  from h e Enable_then_Disable [of sample_plugin sample_Config sample_env sample_world HostStorage]
  show ?thesis by blast
qed

text \<open>
  C3 (what the code does). With a valid configuration, a successful probe and a storage whose
  \<open>Load\<close> succeeds and whose \<open>Save\<close> fails, \<open>Enable\<close> and \<open>Disable\<close> both return no error:
  the result of \<open>Save\<close> is dropped. The blob is not written.
\<close>

theorem Enable_Disable_drop_Save_error:
  \<open>fst (Enable sample_env (sample_plugin, sample_world\<lparr>storage_save_err := Some ''disk full''\<rparr>)) =
     Return None \<and>
   fst (Disable sample_env (sample_plugin, sample_world\<lparr>storage_save_err := Some ''disk full''\<rparr>)) =
     Return None \<and>
   storage_blob (snd (snd (Enable sample_env
     (sample_plugin, sample_world\<lparr>storage_save_err := Some ''disk full''\<rparr>)))) = []\<close>
  by (simp add: Enable.simps Disable.simps TestSocket_def Let_def StorageHandler_Load_def
      StorageHandler_Save_def log_Println_def sample_plugin_def sample_Config_def sample_env_def
      sample_world_def)

text \<open>
  C7. Round trip of the armed state: after the blob for \<open>wasEnabled\<close> true has been saved
  through the storage collaborator, \<open>ValidateAndSetConfig\<close> (validation passing, the decoder
  reading that blob back as true) returns no error and sets \<open>enabled\<close> to true; apart from
  the saved blob the world is unchanged, so no listener goroutine is started.
\<close>

theorem restore_round_trip:
  assumes "validator_Struct env cfg = None"
    and "storageHandler c = Some h" and "storage_load_err w = None" and "storage_save_err w = None"
    and \<open>snd (json_Unmarshal_Storage env ''{"wasEnabled":true}'' \<lparr>WasEnabled = False\<rparr>) =
         \<lparr>WasEnabled = True\<rparr>\<close>
  shows \<open>ValidateAndSetConfig env (ConfigPtr cfg)
           (c, snd (StorageHandler_Save
                      (marshal_ignoring_error (json_Marshal_Storage \<lparr>WasEnabled = True\<rparr>)) w)) =
         (Return None,
          (c\<lparr>config := cfg, enabled := True\<rparr>, w\<lparr>storage_blob := ''{"wasEnabled":true}''\<rparr>))\<close>
  using assms
  by (simp add: ValidateAndSetConfig.simps Let_def StorageHandler_Load_def StorageHandler_Save_def
      json_Marshal_Storage_bytes)

theorem restore_round_trip_witness:
  \<open>validator_Struct sample_env (Some sample_Config) = None \<and>
   storageHandler sample_plugin = Some HostStorage \<and>
   storage_load_err sample_world = None \<and> storage_save_err sample_world = None \<and>
   snd (json_Unmarshal_Storage sample_env ''{"wasEnabled":true}'' \<lparr>WasEnabled = False\<rparr>) =
     \<lparr>WasEnabled = True\<rparr> \<and>
   ValidateAndSetConfig sample_env (ConfigPtr (Some sample_Config))
     (sample_plugin, snd (StorageHandler_Save
        (marshal_ignoring_error (json_Marshal_Storage \<lparr>WasEnabled = True\<rparr>)) sample_world)) =
     (Return None,
      (sample_plugin\<lparr>config := Some sample_Config, enabled := True\<rparr>,
       sample_world\<lparr>storage_blob := ''{"wasEnabled":true}''\<rparr>))\<close>
proof -
  have h: \<open>validator_Struct sample_env (Some sample_Config) = None \<and>
     storageHandler sample_plugin = Some HostStorage \<and>
     storage_load_err sample_world = None \<and> storage_save_err sample_world = None \<and>
     snd (json_Unmarshal_Storage sample_env ''{"wasEnabled":true}'' \<lparr>WasEnabled = False\<rparr>) =
       \<lparr>WasEnabled = True\<rparr>\<close>
    by (simp add: sample_env_def sample_plugin_def sample_world_def sample_Unmarshal_Storage_def)
  from h restore_round_trip [of sample_env "Some sample_Config" sample_plugin HostStorage sample_world]
  show ?thesis by blast
qed

text \<open>
  C10, as stated, fails: a decoder may report an error after it has stored a field. On the
  blob with the key twice, \<open>Load\<close> succeeds, the decoder reports a type error, and
  \<open>ValidateAndSetConfig\<close> returns no error with \<open>enabled\<close> set to true.
\<close>

theorem restore_ignores_decoding_error_counterexample:
  \<open>storage_load_err (sample_world\<lparr>storage_blob := ''{"wasEnabled":true,"wasEnabled":1}''\<rparr>) = None \<and>
   fst (json_Unmarshal_Storage sample_env ''{"wasEnabled":true,"wasEnabled":1}''
          \<lparr>WasEnabled = False\<rparr>) =
     Some ''json: cannot unmarshal number into Go struct field Storage.wasEnabled of type bool'' \<and>
   ValidateAndSetConfig sample_env (ConfigPtr (Some sample_Config))
     (sample_plugin, sample_world\<lparr>storage_blob := ''{"wasEnabled":true,"wasEnabled":1}''\<rparr>) =
     (Return None,
      (sample_plugin\<lparr>config := Some sample_Config, enabled := True\<rparr>,
       sample_world\<lparr>storage_blob := ''{"wasEnabled":true,"wasEnabled":1}''\<rparr>))\<close>
  by (simp add: ValidateAndSetConfig.simps Let_def StorageHandler_Load_def sample_env_def
      sample_plugin_def sample_world_def sample_Unmarshal_Storage_def)

text \<open>
  C10, amended. When \<open>Load\<close> succeeds and the decoder reports an error for the blob,
  \<open>ValidateAndSetConfig\<close> ignores the error: it returns no error and sets \<open>enabled\<close> to the
  \<open>WasEnabled\<close> field of the fresh record as the decoder left it; that is false, the zero value
  of the record, whenever the decoder left the record as it was.
\<close>

theorem restore_ignores_decoding_error:
  assumes "validator_Struct env cfg = None"
    and "storageHandler c = Some h" and "storage_load_err w = None"
    and "fst (json_Unmarshal_Storage env (storage_blob w) \<lparr>WasEnabled = False\<rparr>) = Some err"
  shows "ValidateAndSetConfig env (ConfigPtr cfg) (c, w) =
           (Return None,
            (c\<lparr>config := cfg,
               enabled := WasEnabled (snd (json_Unmarshal_Storage env (storage_blob w)
                                             \<lparr>WasEnabled = False\<rparr>))\<rparr>, w))
         \<and> (snd (json_Unmarshal_Storage env (storage_blob w) \<lparr>WasEnabled = False\<rparr>) =
               \<lparr>WasEnabled = False\<rparr> \<longrightarrow>
             ValidateAndSetConfig env (ConfigPtr cfg) (c, w) =
               (Return None, (c\<lparr>config := cfg, enabled := False\<rparr>, w)))"
  using assms(1-3)
  by (simp add: ValidateAndSetConfig_copies_decoded_flag)

theorem restore_ignores_decoding_error_witness:
  "validator_Struct sample_env (Some sample_Config) = None \<and>
   storageHandler sample_plugin = Some HostStorage \<and>
   storage_load_err sample_world = None \<and>
   json_Unmarshal_Storage sample_env (storage_blob sample_world)
     \<lparr>WasEnabled = False\<rparr> = (Some ''unexpected end of JSON input'', \<lparr>WasEnabled = False\<rparr>) \<and>
   ValidateAndSetConfig sample_env (ConfigPtr (Some sample_Config))
     (sample_plugin\<lparr>enabled := True\<rparr>, sample_world) =
     (Return None,
      (sample_plugin\<lparr>enabled := False, config := Some sample_Config\<rparr>,
       sample_world))"
proof -
  have h: "validator_Struct sample_env (Some sample_Config) = None \<and>
     storageHandler (sample_plugin\<lparr>enabled := True\<rparr>) = Some HostStorage \<and>
     storageHandler sample_plugin = Some HostStorage \<and>
     storage_load_err sample_world = None \<and>
     json_Unmarshal_Storage sample_env (storage_blob sample_world)
       \<lparr>WasEnabled = False\<rparr> = (Some ''unexpected end of JSON input'', \<lparr>WasEnabled = False\<rparr>)"
    by (simp add: sample_env_def sample_plugin_def sample_world_def sample_Unmarshal_Storage_def)
  have eq: "sample_plugin\<lparr>enabled := True, config := Some sample_Config, enabled := False\<rparr> =
            sample_plugin\<lparr>enabled := False, config := Some sample_Config\<rparr>"
    by (simp add: sample_plugin_def)
  from h eq restore_ignores_decoding_error
    [of sample_env "Some sample_Config" "sample_plugin\<lparr>enabled := True\<rparr>" HostStorage
        sample_world "''unexpected end of JSON input''"]
  show ?thesis by simp
qed

section \<open>Properties of the reader goroutine\<close>

lemma forwarded_log_Println_ErrArg [simp]:
  "forwarded (log_Println s (ErrArg e) w) = forwarded w"
  by (simp add: forwarded_def log_Println_def)

lemma exited_log_Println [simp]: "exited (log_Println s a w) = exited w"
  by (simp add: log_Println_def)

lemma exited_log_Fatal [simp]: "exited (log_Fatal s a w)"
  by (simp add: log_Fatal_def)

lemma forwarded_log_Fatal_ErrArg [simp]:
  "forwarded (log_Fatal s (ErrArg e) w) = forwarded w"
  by (simp add: forwarded_def log_Fatal_def)

lemma reader_loop_exited:
  "exited (snd mw) \<Longrightarrow> reader_loop env u rs mw = mw"
  by (cases rs) simp_all

lemma reader_loop_append:
  "reader_loop env u (xs @ ys) mw = reader_loop env u ys (reader_loop env u xs mw)"
  by (induction xs arbitrary: mw) (simp_all add: reader_loop_exited)

text \<open>A pass on a frame that decodes: the forwarder is called once, its error is only printed.\<close>

lemma reader_pass_decoded:
  assumes "json_Unmarshal_Message env b m0 = (None, m)"
  shows "reader_pass env u (Inr b) (m0, w) =
           (m, case fst (SendPostToWebhook env u m w) of
                 Some err \<Rightarrow> log_Println ''POST error: '' (ErrArg err) (snd (SendPostToWebhook env u m w))
               | None \<Rightarrow> snd (SendPostToWebhook env u m w))"
  using assms
  by (cases "SendPostToWebhook env u m w") (simp add: reader_pass.simps split: option.splits)

lemma reader_pass_decoded_forwarded:
  assumes "json_Unmarshal_Message env b m0 = (None, m)"
  shows "forwarded (snd (reader_pass env u (Inr b) (m0, w))) = forwarded w @ [payload_of env m]"
  by (simp add: reader_pass_decoded [OF assms] SendPostToWebhook_forwarded split: option.splits)

lemma reader_pass_decoded_exited:
  assumes "json_Unmarshal_Message env b m0 = (None, m)"
  shows "exited (snd (reader_pass env u (Inr b) (m0, w))) = exited w"
  by (simp add: reader_pass_decoded [OF assms] SendPostToWebhook_exited split: option.splits)

lemma reader_pass_decoded_requests:
  assumes "json_Unmarshal_Message env b m0 = (None, m)"
    and \<open>http_NewRequest_err env ''POST'' u = None\<close>
  shows "requests (snd (reader_pass env u (Inr b) (m0, w))) = requests w @ [webhook_request env u m]"
  by (simp add: reader_pass_decoded [OF assms(1)] SendPostToWebhook_requests [OF assms(2)]
      log_Println_def split: option.splits)

lemma reader_pass_failed:
  assumes "fst (json_Unmarshal_Message env b m0) = Some err"
  shows "snd (reader_pass env u (Inr b) (m0, w)) = log_Fatal ''Json parsing error: '' (ErrArg err) w"
  using assms
  by (cases "json_Unmarshal_Message env b m0") (simp add: reader_pass.simps)

text \<open>A run of frames that all decode: every one is forwarded once, in order, and the loop lives on.\<close>

lemma reader_loop_well_formed:
  assumes "unmarshal_all env m0 bs = (ms, None)" and "\<not> exited w"
  shows "forwarded (snd (reader_loop env u (map Inr bs) (m0, w))) = forwarded w @ map (payload_of env) ms
         \<and> \<not> exited (snd (reader_loop env u (map Inr bs) (m0, w)))
         \<and> fst (reader_loop env u (map Inr bs) (m0, w)) = last (m0 # ms)"
  using assms
proof (induction bs arbitrary: m0 w ms)
  case Nil
  then show ?case by simp
next
  case (Cons b bs)
  obtain r m where dec: "json_Unmarshal_Message env b m0 = (r, m)"
    by (cases "json_Unmarshal_Message env b m0")
  with Cons.prems(1) have r: "r = None"
    by (cases r) (simp_all split: prod.splits)
  obtain ms' where ms': "unmarshal_all env m bs = (ms', None)" and ms: "ms = m # ms'"
    using Cons.prems(1) dec r by (simp split: prod.splits)
  have dec': "json_Unmarshal_Message env b m0 = (None, m)"
    using dec r by simp
  obtain w1 where pass: "reader_pass env u (Inr b) (m0, w) = (m, w1)"
    by (simp add: reader_pass_decoded [OF dec'])
  have w1: "forwarded w1 = forwarded w @ [payload_of env m]" "\<not> exited w1"
    using reader_pass_decoded_forwarded [OF dec', of u w]
      reader_pass_decoded_exited [OF dec', of u w] pass Cons.prems(2) by simp_all
  from Cons.IH [OF ms' w1(2)] w1(1) ms pass Cons.prems(2)
  show ?case by simp
qed

text \<open>When the request can be built, every frame of such a run is posted once, in order.\<close>

lemma reader_loop_well_formed_requests:
  assumes "unmarshal_all env m0 bs = (ms, None)" and "\<not> exited w"
    and \<open>http_NewRequest_err env ''POST'' u = None\<close>
  shows "requests (snd (reader_loop env u (map Inr bs) (m0, w))) =
           requests w @ map (webhook_request env u) ms"
  using assms(1,2)
proof (induction bs arbitrary: m0 w ms)
  case Nil
  then show ?case by simp
next
  case (Cons b bs)
  obtain r m where dec: "json_Unmarshal_Message env b m0 = (r, m)"
    by (cases "json_Unmarshal_Message env b m0")
  with Cons.prems(1) have r: "r = None"
    by (cases r) (simp_all split: prod.splits)
  obtain ms' where ms': "unmarshal_all env m bs = (ms', None)" and ms: "ms = m # ms'"
    using Cons.prems(1) dec r by (simp split: prod.splits)
  have dec': "json_Unmarshal_Message env b m0 = (None, m)"
    using dec r by simp
  obtain w1 where pass: "reader_pass env u (Inr b) (m0, w) = (m, w1)"
    by (simp add: reader_pass_decoded [OF dec'])
  have w1: "requests w1 = requests w @ [webhook_request env u m]" "\<not> exited w1"
    using reader_pass_decoded_requests [OF dec' assms(3), of w]
      reader_pass_decoded_exited [OF dec', of u w] pass Cons.prems(2) by simp_all
  from Cons.IH [OF ms' w1(2)] w1(1) ms pass Cons.prems(2)
  show ?case by simp
qed

text \<open>When the request cannot be built, no frame of such a run is posted.\<close>

lemma reader_pass_decoded_requests_rejected:
  assumes "json_Unmarshal_Message env b m0 = (None, m)"
    and \<open>http_NewRequest_err env ''POST'' u = Some e\<close>
  shows "requests (snd (reader_pass env u (Inr b) (m0, w))) = requests w"
  by (simp add: reader_pass_decoded [OF assms(1)] SendPostToWebhook_requests_rejected [OF assms(2)]
      log_Println_def split: option.splits)

lemma reader_loop_well_formed_requests_rejected:
  assumes "unmarshal_all env m0 bs = (ms, None)" and "\<not> exited w"
    and \<open>http_NewRequest_err env ''POST'' u = Some e\<close>
  shows "requests (snd (reader_loop env u (map Inr bs) (m0, w))) = requests w"
  using assms(1,2)
proof (induction bs arbitrary: m0 w ms)
  case Nil
  then show ?case by simp
next
  case (Cons b bs)
  obtain r m where dec: "json_Unmarshal_Message env b m0 = (r, m)"
    by (cases "json_Unmarshal_Message env b m0")
  with Cons.prems(1) have r: "r = None"
    by (cases r) (simp_all split: prod.splits)
  obtain ms' where ms': "unmarshal_all env m bs = (ms', None)"
    using Cons.prems(1) dec r by (simp split: prod.splits)
  have dec': "json_Unmarshal_Message env b m0 = (None, m)"
    using dec r by simp
  obtain w1 where pass: "reader_pass env u (Inr b) (m0, w) = (m, w1)"
    by (simp add: reader_pass_decoded [OF dec'])
  have w1: "requests w1 = requests w" "\<not> exited w1"
    using reader_pass_decoded_requests_rejected [OF dec' assms(3), of w]
      reader_pass_decoded_exited [OF dec', of u w] pass Cons.prems(2) by simp_all
  from Cons.IH [OF ms' w1(2)] w1(1) pass Cons.prems(2)
  show ?case by simp
qed

text \<open>
  C1. Let the frames before frame \<open>k\<close> all decode (\<open>pre\<close>, giving the messages \<open>ms\<close>) and
  let frame \<open>k\<close> (\<open>bad\<close>) fail to decode. Whatever is read after it (\<open>rest\<close>), the
  reader goroutine forwards exactly the frames before \<open>k\<close>, in order, and ends in
  \<open>log.Fatal\<close> at frame \<open>k\<close>: the final world is the one reached after the frames before
  \<open>k\<close>, plus the fatal log line and the exit, so nothing read after \<open>k\<close> has any effect.
  When \<open>http.NewRequest\<close> accepts the webhook URL, the requests handed to the HTTP client are
  exactly those of the frames before \<open>k\<close>.
\<close>

theorem reader_stops_at_undecodable_frame:
  assumes "unmarshal_all env m0 pre = (ms, None)"
    and "fst (json_Unmarshal_Message env bad (last (m0 # ms))) = Some err"
    and "\<not> exited w"
  shows "forwarded (snd (reader_loop env u (map Inr pre @ Inr bad # rest) (m0, w))) =
           forwarded w @ map (payload_of env) ms
         \<and> exited (snd (reader_loop env u (map Inr pre @ Inr bad # rest) (m0, w)))
         \<and> snd (reader_loop env u (map Inr pre @ Inr bad # rest) (m0, w)) =
             log_Fatal ''Json parsing error: '' (ErrArg err)
               (snd (reader_loop env u (map Inr pre) (m0, w)))
         \<and> (http_NewRequest_err env ''POST'' u = None \<longrightarrow>
              requests (snd (reader_loop env u (map Inr pre @ Inr bad # rest) (m0, w))) =
                requests w @ map (webhook_request env u) ms)"
proof -
  obtain m' w' where pre: "reader_loop env u (map Inr pre) (m0, w) = (m', w')"
    by (cases "reader_loop env u (map Inr pre) (m0, w)")
  from reader_loop_well_formed [OF assms(1) assms(3), of u] pre
  have w': "forwarded w' = forwarded w @ map (payload_of env) ms" "\<not> exited w'"
    and m': "m' = last (m0 # ms)"
    by simp_all
  have bad: "snd (reader_pass env u (Inr bad) (m', w')) =
               log_Fatal ''Json parsing error: '' (ErrArg err) w'"
    using reader_pass_failed [of env bad m' err u w'] assms(2) m' by simp
  have "reader_loop env u (map Inr pre @ Inr bad # rest) (m0, w) =
          reader_loop env u rest (reader_pass env u (Inr bad) (m', w'))"
    using pre w'(2) by (simp add: reader_loop_append)
  also have "\<dots> = reader_pass env u (Inr bad) (m', w')"
    by (rule reader_loop_exited) (simp add: bad)
  finally have fin: "snd (reader_loop env u (map Inr pre @ Inr bad # rest) (m0, w)) =
                  log_Fatal ''Json parsing error: '' (ErrArg err) w'"
    using bad by simp
  have "requests w' = requests w @ map (webhook_request env u) ms"
    if "http_NewRequest_err env ''POST'' u = None"
    using reader_loop_well_formed_requests [OF assms(1) assms(3) that] pre by simp
  then have "http_NewRequest_err env ''POST'' u = None \<longrightarrow>
      requests (snd (reader_loop env u (map Inr pre @ Inr bad # rest) (m0, w))) =
        requests w @ map (webhook_request env u) ms"
    using fin by (simp add: log_Fatal_def)
  with fin w' pre show ?thesis by simp
qed

theorem reader_stops_at_undecodable_frame_witness:
  \<open>unmarshal_all sample_env \<lparr>Message = [], Title = [], Priority = 0\<rparr>
      [''{"title":"T","message":"M"}'', ''{"message":"N"}''] =
      ([\<lparr>Message = ''M'', Title = ''T'', Priority = 0\<rparr>,
        \<lparr>Message = ''N'', Title = ''T'', Priority = 0\<rparr>], None) \<and>
   fst (json_Unmarshal_Message sample_env ''{"title":''
          \<lparr>Message = ''N'', Title = ''T'', Priority = 0\<rparr>) = Some ''invalid character'' \<and>
   \<not> exited sample_world \<and>
   forwarded (snd (reader_loop sample_env ''http://example.com/hook''
      [Inr ''{"title":"T","message":"M"}'', Inr ''{"message":"N"}'', Inr ''{"title":'',
       Inr ''{"title":"T","message":"M"}'']
      (\<lparr>Message = [], Title = [], Priority = 0\<rparr>, sample_world))) =
     [\<lparr>Username = ''T'', Text = ''M'', Html = ''<p>M</p>''\<rparr>,
      \<lparr>Username = ''T'', Text = ''N'', Html = ''<p>N</p>''\<rparr>] \<and>
   exited (snd (reader_loop sample_env ''http://example.com/hook''
      [Inr ''{"title":"T","message":"M"}'', Inr ''{"message":"N"}'', Inr ''{"title":'',
       Inr ''{"title":"T","message":"M"}'']
      (\<lparr>Message = [], Title = [], Priority = 0\<rparr>, sample_world))) \<and>
   map req_body (requests (snd (reader_loop sample_env ''http://example.com/hook''
      [Inr ''{"title":"T","message":"M"}'', Inr ''{"message":"N"}'', Inr ''{"title":'',
       Inr ''{"title":"T","message":"M"}'']
      (\<lparr>Message = [], Title = [], Priority = 0\<rparr>, sample_world)))) =
     [''{"username":"T","text":"M","html":"<p>M</p>"}'',
      ''{"username":"T","text":"N","html":"<p>N</p>"}'']\<close>
proof -
  have h1: \<open>unmarshal_all sample_env \<lparr>Message = [], Title = [], Priority = 0\<rparr>
      [''{"title":"T","message":"M"}'', ''{"message":"N"}''] =
      ([\<lparr>Message = ''M'', Title = ''T'', Priority = 0\<rparr>,
        \<lparr>Message = ''N'', Title = ''T'', Priority = 0\<rparr>], None)\<close>
    by (simp add: sample_env_def sample_Unmarshal_Message_def)
  have h2: \<open>fst (json_Unmarshal_Message sample_env ''{"title":''
      (last [\<lparr>Message = [], Title = [], Priority = 0\<rparr>,
             \<lparr>Message = ''M'', Title = ''T'', Priority = 0\<rparr>,
             \<lparr>Message = ''N'', Title = ''T'', Priority = 0\<rparr>])) = Some ''invalid character''\<close>
    by (simp add: sample_env_def sample_Unmarshal_Message_def)
  have h3: "\<not> exited sample_world"
    by (simp add: sample_world_def)
  have f: "forwarded sample_world = []"
    by (simp add: sample_world_def forwarded_def)
  have p: \<open>map (payload_of sample_env)
      [\<lparr>Message = ''M'', Title = ''T'', Priority = 0\<rparr>,
       \<lparr>Message = ''N'', Title = ''T'', Priority = 0\<rparr>] =
      [\<lparr>Username = ''T'', Text = ''M'', Html = ''<p>M</p>''\<rparr>,
       \<lparr>Username = ''T'', Text = ''N'', Html = ''<p>N</p>''\<rparr>]\<close>
    by (simp add: payload_of_def sample_env_def)
  have nr: \<open>http_NewRequest_err sample_env ''POST'' ''http://example.com/hook'' = None\<close>
    by (simp add: sample_env_def)
  have q: \<open>requests sample_world = [] \<and>
      map req_body (map (webhook_request sample_env ''http://example.com/hook'')
        [\<lparr>Message = ''M'', Title = ''T'', Priority = 0\<rparr>,
         \<lparr>Message = ''N'', Title = ''T'', Priority = 0\<rparr>]) =
      [''{"username":"T","text":"M","html":"<p>M</p>"}'',
       ''{"username":"T","text":"N","html":"<p>N</p>"}'']\<close>
    by (simp add: webhook_request_def sample_env_def sample_world_def)
  from reader_stops_at_undecodable_frame [OF h1 h2 h3, of "''http://example.com/hook''"
      \<open>[Inr ''{"title":"T","message":"M"}'']\<close>]
  have \<open>forwarded (snd (reader_loop sample_env ''http://example.com/hook''
          (map Inr [''{"title":"T","message":"M"}'', ''{"message":"N"}''] @
           Inr ''{"title":'' # [Inr ''{"title":"T","message":"M"}''])
          (\<lparr>Message = [], Title = [], Priority = 0\<rparr>, sample_world))) =
        forwarded sample_world @ map (payload_of sample_env)
          [\<lparr>Message = ''M'', Title = ''T'', Priority = 0\<rparr>,
           \<lparr>Message = ''N'', Title = ''T'', Priority = 0\<rparr>] \<and>
        exited (snd (reader_loop sample_env ''http://example.com/hook''
          (map Inr [''{"title":"T","message":"M"}'', ''{"message":"N"}''] @
           Inr ''{"title":'' # [Inr ''{"title":"T","message":"M"}''])
          (\<lparr>Message = [], Title = [], Priority = 0\<rparr>, sample_world))) \<and>
        requests (snd (reader_loop sample_env ''http://example.com/hook''
          (map Inr [''{"title":"T","message":"M"}'', ''{"message":"N"}''] @
           Inr ''{"title":'' # [Inr ''{"title":"T","message":"M"}''])
          (\<lparr>Message = [], Title = [], Priority = 0\<rparr>, sample_world))) =
        requests sample_world @ map (webhook_request sample_env ''http://example.com/hook'')
          [\<lparr>Message = ''M'', Title = ''T'', Priority = 0\<rparr>,
           \<lparr>Message = ''N'', Title = ''T'', Priority = 0\<rparr>]\<close>
    using nr by blast
  then have \<open>forwarded (snd (reader_loop sample_env ''http://example.com/hook''
          [Inr ''{"title":"T","message":"M"}'', Inr ''{"message":"N"}'', Inr ''{"title":'',
           Inr ''{"title":"T","message":"M"}'']
          (\<lparr>Message = [], Title = [], Priority = 0\<rparr>, sample_world))) =
        [\<lparr>Username = ''T'', Text = ''M'', Html = ''<p>M</p>''\<rparr>,
         \<lparr>Username = ''T'', Text = ''N'', Html = ''<p>N</p>''\<rparr>] \<and>
        exited (snd (reader_loop sample_env ''http://example.com/hook''
          [Inr ''{"title":"T","message":"M"}'', Inr ''{"message":"N"}'', Inr ''{"title":'',
           Inr ''{"title":"T","message":"M"}'']
          (\<lparr>Message = [], Title = [], Priority = 0\<rparr>, sample_world))) \<and>
        map req_body (requests (snd (reader_loop sample_env ''http://example.com/hook''
          [Inr ''{"title":"T","message":"M"}'', Inr ''{"message":"N"}'', Inr ''{"title":'',
           Inr ''{"title":"T","message":"M"}'']
          (\<lparr>Message = [], Title = [], Priority = 0\<rparr>, sample_world)))) =
         [''{"username":"T","text":"M","html":"<p>M</p>"}'',
          ''{"username":"T","text":"N","html":"<p>N</p>"}'']\<close>
    using f p q by (simp del: reader_loop.simps)
  moreover have \<open>fst (json_Unmarshal_Message sample_env ''{"title":''
          \<lparr>Message = ''N'', Title = ''T'', Priority = 0\<rparr>) = Some ''invalid character''\<close>
    using h2 by simp
  ultimately show ?thesis using h1 h3 by blast
qed

lemma SendPostToWebhook_logs:
  "set (logs w) \<subseteq> set (logs (snd (SendPostToWebhook env u m w)))"
  by (auto simp add: SendPostToWebhook_def Let_def log_Println_def
      json_Marshal_WebhookPost_def http_NewRequest_def split: option.splits sum.splits)

lemma reader_pass_logs:
  "set (logs w) \<subseteq> set (logs (snd (reader_pass env u r (m, w))))"
proof (cases r)
  case (Inl err)
  then show ?thesis by (auto simp add: reader_pass.simps log_Fatal_def)
next
  case (Inr b)
  obtain x m1 where d: "json_Unmarshal_Message env b m = (x, m1)"
    by (cases "json_Unmarshal_Message env b m")
  show ?thesis
  proof (cases x)
    case None
    with d Inr SendPostToWebhook_logs [of w env u m1] show ?thesis
      by (auto simp add: reader_pass_decoded log_Println_def split: option.splits)
  next
    case (Some err)
    with d Inr show ?thesis by (auto simp add: reader_pass.simps log_Fatal_def)
  qed
qed

lemma reader_loop_logs:
  "set (logs (snd mw)) \<subseteq> set (logs (snd (reader_loop env u rs mw)))"
proof (induction rs arbitrary: mw)
  case Nil
  then show ?case by simp
next
  case (Cons r rs)
  obtain m w where mw: "mw = (m, w)" by (cases mw)
  from Cons.IH [of "reader_pass env u r (m, w)"] reader_pass_logs [of w env u r m] mw
  show ?case by auto
qed

text \<open>
  C8. Let a frame decode and its forwarding fail with an error, and let the frames after it
  all decode. Then the loop prints the error and goes on with the next frames exactly as
  after a successful forward; the failed event and every later event are handed to the
  forwarder once each, in order (no retry); the process has not exited; and the error line
  is in the log. At the HTTP client: when \<open>http.NewRequest\<close> accepts the webhook URL (the
  failure was the transport's), the requests handed over are exactly one for the failed event
  and one for each later event, in order; when it rejects the URL, none is handed over.
\<close>

theorem reader_survives_forward_error:
  assumes "json_Unmarshal_Message env b m0 = (None, m)"
    and "fst (SendPostToWebhook env u m w) = Some err"
    and "unmarshal_all env m bs = (ms, None)"
    and "\<not> exited w"
  shows "reader_loop env u (Inr b # map Inr bs) (m0, w) =
           reader_loop env u (map Inr bs)
             (m, log_Println ''POST error: '' (ErrArg err) (snd (SendPostToWebhook env u m w)))
         \<and> forwarded (snd (reader_loop env u (Inr b # map Inr bs) (m0, w))) =
             forwarded w @ payload_of env m # map (payload_of env) ms
         \<and> \<not> exited (snd (reader_loop env u (Inr b # map Inr bs) (m0, w)))
         \<and> Log ''POST error: '' (ErrArg err) \<in>
             set (logs (snd (reader_loop env u (Inr b # map Inr bs) (m0, w))))
         \<and> (http_NewRequest_err env ''POST'' u = None \<longrightarrow>
              requests (snd (reader_loop env u (Inr b # map Inr bs) (m0, w))) =
                requests w @ webhook_request env u m # map (webhook_request env u) ms)
         \<and> (http_NewRequest_err env ''POST'' u \<noteq> None \<longrightarrow>
              requests (snd (reader_loop env u (Inr b # map Inr bs) (m0, w))) = requests w)"
proof -
  let ?w1 = "log_Println ''POST error: '' (ErrArg err) (snd (SendPostToWebhook env u m w))"
  have pass: "reader_pass env u (Inr b) (m0, w) = (m, ?w1)"
    using assms(2) by (simp add: reader_pass_decoded [OF assms(1)])
  have step: "reader_loop env u (Inr b # map Inr bs) (m0, w) = reader_loop env u (map Inr bs) (m, ?w1)"
    using assms(4) pass by simp
  have w1: "\<not> exited ?w1" "forwarded ?w1 = forwarded w @ [payload_of env m]"
    using assms(4) by (simp_all add: SendPostToWebhook_exited SendPostToWebhook_forwarded)
  have "Log ''POST error: '' (ErrArg err) \<in> set (logs ?w1)"
    by (simp add: log_Println_def)
  with reader_loop_logs [of "(m, ?w1)" env u "map Inr bs"]
  have logged: "Log ''POST error: '' (ErrArg err) \<in> set (logs (snd (reader_loop env u (map Inr bs) (m, ?w1))))"
    by auto
  have accepted: "requests (snd (reader_loop env u (map Inr bs) (m, ?w1))) =
      requests w @ webhook_request env u m # map (webhook_request env u) ms"
    if nr: "http_NewRequest_err env ''POST'' u = None"
    using reader_loop_well_formed_requests [OF assms(3) w1(1) nr]
      SendPostToWebhook_requests [OF nr, of m w]
    by (simp add: log_Println_def)
  have rejected: "requests (snd (reader_loop env u (map Inr bs) (m, ?w1))) = requests w"
    if nr: "http_NewRequest_err env ''POST'' u = Some e" for e
    using reader_loop_well_formed_requests_rejected [OF assms(3) w1(1) nr]
      SendPostToWebhook_requests_rejected(1) [OF nr, of m w]
    by (simp add: log_Println_def)
  have reqs: "(http_NewRequest_err env ''POST'' u = None \<longrightarrow>
        requests (snd (reader_loop env u (map Inr bs) (m, ?w1))) =
          requests w @ webhook_request env u m # map (webhook_request env u) ms) \<and>
      (http_NewRequest_err env ''POST'' u \<noteq> None \<longrightarrow>
        requests (snd (reader_loop env u (map Inr bs) (m, ?w1))) = requests w)"
    using accepted rejected by auto
  from reader_loop_well_formed [OF assms(3) w1(1), of u] w1(2) step logged reqs
  show ?thesis by simp
qed

theorem reader_survives_forward_error_witness:
  \<open>json_Unmarshal_Message sample_env ''{"title":"T","message":"M"}''
      \<lparr>Message = [], Title = [], Priority = 0\<rparr> =
      (None, \<lparr>Message = ''M'', Title = ''T'', Priority = 0\<rparr>) \<and>
   fst (SendPostToWebhook sample_env ''http://down/hook''
          \<lparr>Message = ''M'', Title = ''T'', Priority = 0\<rparr> sample_world) = Some ''connection refused'' \<and>
   unmarshal_all sample_env \<lparr>Message = ''M'', Title = ''T'', Priority = 0\<rparr> [''{"message":"N"}''] =
      ([\<lparr>Message = ''N'', Title = ''T'', Priority = 0\<rparr>], None) \<and>
   \<not> exited sample_world \<and>
   forwarded (snd (reader_loop sample_env ''http://down/hook''
      [Inr ''{"title":"T","message":"M"}'', Inr ''{"message":"N"}'']
      (\<lparr>Message = [], Title = [], Priority = 0\<rparr>, sample_world))) =
     [\<lparr>Username = ''T'', Text = ''M'', Html = ''<p>M</p>''\<rparr>,
      \<lparr>Username = ''T'', Text = ''N'', Html = ''<p>N</p>''\<rparr>] \<and>
   \<not> exited (snd (reader_loop sample_env ''http://down/hook''
      [Inr ''{"title":"T","message":"M"}'', Inr ''{"message":"N"}'']
      (\<lparr>Message = [], Title = [], Priority = 0\<rparr>, sample_world))) \<and>
   Log ''POST error: '' (ErrArg ''connection refused'') \<in>
     set (logs (snd (reader_loop sample_env ''http://down/hook''
      [Inr ''{"title":"T","message":"M"}'', Inr ''{"message":"N"}'']
      (\<lparr>Message = [], Title = [], Priority = 0\<rparr>, sample_world)))) \<and>
   http_NewRequest_err sample_env ''POST'' ''http://down/hook'' = None \<and>
   map req_body (requests (snd (reader_loop sample_env ''http://down/hook''
      [Inr ''{"title":"T","message":"M"}'', Inr ''{"message":"N"}'']
      (\<lparr>Message = [], Title = [], Priority = 0\<rparr>, sample_world)))) =
     [''{"username":"T","text":"M","html":"<p>M</p>"}'',
      ''{"username":"T","text":"N","html":"<p>N</p>"}'']\<close>
proof -
  have h1: \<open>json_Unmarshal_Message sample_env ''{"title":"T","message":"M"}''
      \<lparr>Message = [], Title = [], Priority = 0\<rparr> =
      (None, \<lparr>Message = ''M'', Title = ''T'', Priority = 0\<rparr>)\<close>
    by (simp add: sample_env_def sample_Unmarshal_Message_def)
  have h2: \<open>fst (SendPostToWebhook sample_env ''http://down/hook''
      \<lparr>Message = ''M'', Title = ''T'', Priority = 0\<rparr> sample_world) = Some ''connection refused''\<close>
    by (simp add: sample_env_def sample_world_def SendPostToWebhook_def Let_def
        log_Println_def json_Marshal_WebhookPost_def http_NewRequest_def Header_Set_def)
  have h3: \<open>unmarshal_all sample_env \<lparr>Message = ''M'', Title = ''T'', Priority = 0\<rparr>
      [''{"message":"N"}''] = ([\<lparr>Message = ''N'', Title = ''T'', Priority = 0\<rparr>], None)\<close>
    by (simp add: sample_env_def sample_Unmarshal_Message_def)
  have h4: "\<not> exited sample_world"
    by (simp add: sample_world_def)
  have nr: \<open>http_NewRequest_err sample_env ''POST'' ''http://down/hook'' = None\<close>
    by (simp add: sample_env_def)
  have f: "forwarded sample_world = []"
    by (simp add: sample_world_def forwarded_def)
  have p: \<open>payload_of sample_env \<lparr>Message = ''M'', Title = ''T'', Priority = 0\<rparr> =
             \<lparr>Username = ''T'', Text = ''M'', Html = ''<p>M</p>''\<rparr> \<and>
           payload_of sample_env \<lparr>Message = ''N'', Title = ''T'', Priority = 0\<rparr> =
             \<lparr>Username = ''T'', Text = ''N'', Html = ''<p>N</p>''\<rparr>\<close>
    by (simp add: payload_of_def sample_env_def)
  have q: \<open>requests sample_world = [] \<and>
      req_body (webhook_request sample_env ''http://down/hook''
                  \<lparr>Message = ''M'', Title = ''T'', Priority = 0\<rparr>) =
        ''{"username":"T","text":"M","html":"<p>M</p>"}'' \<and>
      req_body (webhook_request sample_env ''http://down/hook''
                  \<lparr>Message = ''N'', Title = ''T'', Priority = 0\<rparr>) =
        ''{"username":"T","text":"N","html":"<p>N</p>"}''\<close>
    by (simp add: webhook_request_def sample_env_def sample_world_def)
  from reader_survives_forward_error [OF h1 h2 h3 h4] nr
  have \<open>forwarded (snd (reader_loop sample_env ''http://down/hook''
          (Inr ''{"title":"T","message":"M"}'' # map Inr [''{"message":"N"}''])
          (\<lparr>Message = [], Title = [], Priority = 0\<rparr>, sample_world))) =
        forwarded sample_world @ payload_of sample_env \<lparr>Message = ''M'', Title = ''T'', Priority = 0\<rparr> #
          map (payload_of sample_env) [\<lparr>Message = ''N'', Title = ''T'', Priority = 0\<rparr>] \<and>
        \<not> exited (snd (reader_loop sample_env ''http://down/hook''
          (Inr ''{"title":"T","message":"M"}'' # map Inr [''{"message":"N"}''])
          (\<lparr>Message = [], Title = [], Priority = 0\<rparr>, sample_world))) \<and>
        Log ''POST error: '' (ErrArg ''connection refused'') \<in>
          set (logs (snd (reader_loop sample_env ''http://down/hook''
          (Inr ''{"title":"T","message":"M"}'' # map Inr [''{"message":"N"}''])
          (\<lparr>Message = [], Title = [], Priority = 0\<rparr>, sample_world)))) \<and>
        requests (snd (reader_loop sample_env ''http://down/hook''
          (Inr ''{"title":"T","message":"M"}'' # map Inr [''{"message":"N"}''])
          (\<lparr>Message = [], Title = [], Priority = 0\<rparr>, sample_world))) =
        requests sample_world @
          webhook_request sample_env ''http://down/hook'' \<lparr>Message = ''M'', Title = ''T'', Priority = 0\<rparr> #
          map (webhook_request sample_env ''http://down/hook'')
            [\<lparr>Message = ''N'', Title = ''T'', Priority = 0\<rparr>]\<close>
    by blast
  then have \<open>forwarded (snd (reader_loop sample_env ''http://down/hook''
          [Inr ''{"title":"T","message":"M"}'', Inr ''{"message":"N"}'']
          (\<lparr>Message = [], Title = [], Priority = 0\<rparr>, sample_world))) =
        [\<lparr>Username = ''T'', Text = ''M'', Html = ''<p>M</p>''\<rparr>,
         \<lparr>Username = ''T'', Text = ''N'', Html = ''<p>N</p>''\<rparr>] \<and>
        \<not> exited (snd (reader_loop sample_env ''http://down/hook''
          [Inr ''{"title":"T","message":"M"}'', Inr ''{"message":"N"}'']
          (\<lparr>Message = [], Title = [], Priority = 0\<rparr>, sample_world))) \<and>
        Log ''POST error: '' (ErrArg ''connection refused'') \<in>
          set (logs (snd (reader_loop sample_env ''http://down/hook''
          [Inr ''{"title":"T","message":"M"}'', Inr ''{"message":"N"}'']
          (\<lparr>Message = [], Title = [], Priority = 0\<rparr>, sample_world)))) \<and>
        map req_body (requests (snd (reader_loop sample_env ''http://down/hook''
          [Inr ''{"title":"T","message":"M"}'', Inr ''{"message":"N"}'']
          (\<lparr>Message = [], Title = [], Priority = 0\<rparr>, sample_world)))) =
         [''{"username":"T","text":"M","html":"<p>M</p>"}'',
          ''{"username":"T","text":"N","html":"<p>N</p>"}'']\<close>
    using f p q by (simp del: reader_loop.simps)
  with h1 h2 h3 h4 nr show ?thesis by blast
qed

section \<open>Properties of the engine\<close>

lemma reader_pass_ws_closed:
  "ws_closed (snd (reader_pass env u r (m, w))) = ws_closed w"
proof (cases r)
  case (Inl err)
  then show ?thesis by (simp add: reader_pass.simps log_Fatal_def)
next
  case (Inr b)
  obtain x m1 where d: "json_Unmarshal_Message env b m = (x, m1)"
    by (cases "json_Unmarshal_Message env b m")
  show ?thesis
  proof (cases x)
    case None
    with d Inr show ?thesis
      by (simp add: reader_pass_decoded SendPostToWebhook_ws_closed log_Println_def
          split: option.splits)
  next
    case (Some err)
    with d Inr show ?thesis by (simp add: reader_pass.simps log_Fatal_def)
  qed
qed

lemma engine_step_exited:
  "exited w \<Longrightarrow> engine_step env u ev (e, w) = (e, w)"
  by (simp add: engine_step.simps)

lemma run_engine_exited:
  "exited (snd ew) \<Longrightarrow> run_engine env u evs ew = ew"
proof (induction evs)
  case Nil
  then show ?case by simp
next
  case (Cons ev evs)
  obtain e w where ew: "ew = (e, w)" by (cases ew)
  with Cons show ?case by (simp add: engine_step_exited)
qed

text \<open>A read never moves the select loop and never closes the handle.\<close>

lemma engine_step_Read:
  "phase (fst (engine_step env u (Read r) (e, w))) = phase e \<and>
   ws_closed (snd (engine_step env u (Read r) (e, w))) = ws_closed w"
  using reader_pass_ws_closed [of env u r "incomingMsg e" w]
  by (cases "reader_pass env u r (incomingMsg e, w)") (simp add: engine_step.simps)

text \<open>A failed read ends the process where it stands: the deferred close has not run.\<close>

lemma engine_step_Read_error:
  assumes "\<not> exited w"
  shows "engine_step env u (Read (Inl err)) (e, w) =
           (e, log_Fatal ''Websocket read message error: '' (ErrArg err) w)"
  using assms by (simp add: engine_step.simps reader_pass.simps)

text \<open>
  On the paths that return from \<open>StartListener\<close> (a failed keepalive write, an interrupt
  followed by a failed close frame or by the final wait), the handle is closed exactly once;
  on no path is it closed twice.
\<close>

lemma engine_step_closed_iff_returned:
  assumes "closed_iff_returned (e, w)"
  shows "closed_iff_returned (engine_step env u ev (e, w))"
proof (cases "exited w")
  case True
  with assms show ?thesis by (simp add: engine_step_exited)
next
  case False
  show ?thesis
  proof (cases ev)
    case (Read r)
    with assms engine_step_Read [of env u r e w] show ?thesis
      by (simp add: closed_iff_returned_def)
  next
    case (Tick t r)
    with assms False show ?thesis
      by (auto simp add: closed_iff_returned_def engine_step.simps log_Println_def
          split: option.splits phase.splits)
  next
    case (Interrupt r)
    with assms False show ?thesis
      by (auto simp add: closed_iff_returned_def engine_step.simps log_Println_def Let_def
          split: option.splits phase.splits)
  next
    case GraceTimeout
    with assms False show ?thesis
      by (auto simp add: closed_iff_returned_def engine_step.simps split: phase.splits)
  next
    case DoneObserved
    with assms False show ?thesis
      by (auto simp add: closed_iff_returned_def engine_step.simps split: phase.splits)
  qed
qed

lemma run_engine_closed_iff_returned:
  "closed_iff_returned ew \<Longrightarrow> closed_iff_returned (run_engine env u evs ew)"
proof (induction evs arbitrary: ew)
  case Nil
  then show ?case by simp
next
  case (Cons ev evs)
  obtain e w where ew: "ew = (e, w)" by (cases ew)
  from Cons.IH [of "engine_step env u ev (e, w)"]
    engine_step_closed_iff_returned [of e w env u ev] Cons.prems ew
  show ?case by simp
qed

lemma StartListener_closed_iff_returned:
  assumes "websocket_Dial env (dialed w) serverUrl = None" and "ws_closed w = 0"
    and "StartListener env u serverUrl evs w = (Some e, w')"
  shows "ws_closed w' = (case phase e of Returned r \<Rightarrow> 1 | Selecting \<Rightarrow> 0 | Grace \<Rightarrow> 0)"
proof -
  let ?start = "(\<lparr>phase = Selecting, incomingMsg = \<lparr>Message = [], Title = [], Priority = 0\<rparr>,
                  done_closed = False\<rparr>,
                 log_Println ''Connected to '' (StrArg serverUrl) (w\<lparr>dialed := dialed w @ [serverUrl]\<rparr>))"
  have "closed_iff_returned ?start"
    using assms(2) by (simp add: closed_iff_returned_def log_Println_def)
  then have "closed_iff_returned (run_engine env u evs ?start)"
    by (rule run_engine_closed_iff_returned)
  moreover have "run_engine env u evs ?start = (e, w')"
    using assms(1) assms(3) by (simp add: StartListener_def Let_def split: prod.splits)
  ultimately show ?thesis by (simp add: closed_iff_returned_def)
qed

text \<open>
  C2 (what the code does). With the connection open, a failed read or a frame that does not
  decode ends the run in \<open>log.Fatal\<close>: the process exits and the handle has been closed zero
  times, whatever is scheduled afterwards. The runs that end by a failed keepalive write or
  by an interrupt and the final wait close it once.
\<close>

theorem StartListener_reader_exit_skips_Close:
  \<open>exited (snd (StartListener sample_env ''http://example.com/hook''
      ''ws://localhost:8080/stream?token=abc'' [Read (Inl ''unexpected EOF'')] sample_world)) \<and>
   ws_closed (snd (StartListener sample_env ''http://example.com/hook''
      ''ws://localhost:8080/stream?token=abc'' [Read (Inl ''unexpected EOF'')] sample_world)) = 0 \<and>
   ws_closed (snd (StartListener sample_env ''http://example.com/hook''
      ''ws://localhost:8080/stream?token=abc''
      [Read (Inl ''unexpected EOF''), Tick ''t'' (Some ''broken pipe''), Interrupt None, GraceTimeout]
      sample_world)) = 0 \<and>
   exited (snd (StartListener sample_env ''http://example.com/hook''
      ''ws://localhost:8080/stream?token=abc'' [Read (Inr ''{"title":'')] sample_world)) \<and>
   ws_closed (snd (StartListener sample_env ''http://example.com/hook''
      ''ws://localhost:8080/stream?token=abc'' [Read (Inr ''{"title":'')] sample_world)) = 0 \<and>
   ws_closed (snd (StartListener sample_env ''http://example.com/hook''
      ''ws://localhost:8080/stream?token=abc'' [Tick ''t'' (Some ''broken pipe'')] sample_world)) = 1 \<and>
   ws_closed (snd (StartListener sample_env ''http://example.com/hook''
      ''ws://localhost:8080/stream?token=abc'' [Interrupt None, GraceTimeout] sample_world)) = 1\<close>
  by (simp add: StartListener_def Let_def engine_step.simps reader_pass.simps log_Fatal_def
      log_Println_def sample_env_def sample_world_def sample_Unmarshal_Message_def)

end
